theory Spec2Isabelle
  imports Complex_Main
begin

section \<open>The cashflow engine of the report server\<close>

text \<open>
  A shallow embedding of the calculation helpers of the report server
  (\<^verbatim>\<open>num\<close>, \<^verbatim>\<open>fmt\<close>, \<^verbatim>\<open>pct\<close>, \<^verbatim>\<open>pmtAnnual\<close>, \<^verbatim>\<open>calcStampDuty\<close>,
  \<^verbatim>\<open>calcMortgageFee\<close>, \<^verbatim>\<open>calcLMI\<close>, \<^verbatim>\<open>calculateCashflow\<close>).

  JavaScript numbers are modelled as \<^typ>\<open>real\<close>: arithmetic is exact, and the
  non-finite doubles (NaN, the infinities, negative zero) have no counterpart. Where the
  source reaches one of them on purpose (\<^verbatim>\<open>parseFloat\<close> returning NaN) the model uses
  \<^typ>\<open>real option\<close>. Strings are byte strings; case mapping and white space are
  those of ASCII.
\<close>

subsection \<open>Strings\<close>

definition is_ws :: "char \<Rightarrow> bool" where
  "is_ws c = (c \<in> set [CHR '' '', CHR 0x09, CHR 0x0A, CHR 0x0B, CHR 0x0C, CHR 0x0D])"

definition upper_char :: "char \<Rightarrow> char" where
  "upper_char c =
     (case map_of (zip ''abcdefghijklmnopqrstuvwxyz'' ''ABCDEFGHIJKLMNOPQRSTUVWXYZ'') c of
        Some u \<Rightarrow> u
      | None \<Rightarrow> c)"

definition toUpperCase :: "string \<Rightarrow> string" where
  "toUpperCase s = map upper_char s"

definition trim :: "string \<Rightarrow> string" where
  "trim s = rev (dropWhile is_ws (rev (dropWhile is_ws s)))"

text \<open>\<^verbatim>\<open>state || "NSW"\<close>: the empty string is falsy.\<close>

definition or_NSW :: "string \<Rightarrow> string" where
  "or_NSW state = (if state = [] then ''NSW'' else state)"

subsection \<open>Stamp duty\<close>

definition calcStampDuty :: "real \<Rightarrow> string \<Rightarrow> real" where
  "calcStampDuty price state =
    (let s = trim (toUpperCase (or_NSW state)); p = price in
     if s = ''NSW'' then
       (if p \<le> 17000 then p * 0.0125
        else if p \<le> 36000 then 212.50 + (p - 17000) * 0.015
        else if p \<le> 97000 then 497.50 + (p - 36000) * 0.0175
        else if p \<le> 364000 then 1565 + (p - 97000) * 0.035
        else if p \<le> 1214000 then 10912.50 + (p - 364000) * 0.045
        else if p \<le> 3636000 then 49237.50 + (p - 1214000) * 0.055
        else 182447.50 + (p - 3636000) * 0.07)
     else if s = ''VIC'' then
       (if p \<le> 25000 then p * 0.014
        else if p \<le> 130000 then 350 + (p - 25000) * 0.024
        else if p \<le> 960000 then 2870 + (p - 130000) * 0.06
        else if p \<le> 2000000 then p * 0.055
        else 110000 + (p - 2000000) * 0.065)
     else if s = ''QLD'' then
       (if p \<le> 5000 then 0
        else if p \<le> 75000 then 1.50 * ((p - 5000) / 100)
        else if p \<le> 540000 then 1050 + 3.50 * ((p - 75000) / 100)
        else if p \<le> 1000000 then 17325 + 4.50 * ((p - 540000) / 100)
        else 38025 + 5.75 * ((p - 1000000) / 100))
     else if s = ''WA'' then
       (if p \<le> 120000 then p * 0.019
        else if p \<le> 150000 then 2280 + (p - 120000) * 0.0285
        else if p \<le> 360000 then 3135 + (p - 150000) * 0.038
        else if p \<le> 725000 then 11115 + (p - 360000) * 0.0475
        else 28453 + (p - 725000) * 0.0515)
     else if s = ''SA'' then
       (if p \<le> 12000 then p * 0.01
        else if p \<le> 30000 then 120 + (p - 12000) * 0.02
        else if p \<le> 50000 then 480 + (p - 30000) * 0.03
        else if p \<le> 100000 then 1080 + (p - 50000) * 0.035
        else if p \<le> 200000 then 2830 + (p - 100000) * 0.04
        else if p \<le> 250000 then 6830 + (p - 200000) * 0.045
        else if p \<le> 300000 then 9080 + (p - 250000) * 0.05
        else if p \<le> 500000 then 11330 + (p - 300000) * 0.05
        else 21330 + (p - 500000) * 0.055)
     else if s = ''TAS'' then
       (if p \<le> 3000 then 50
        else if p \<le> 25000 then 50 + (p - 3000) * 0.0175
        else if p \<le> 75000 then 435 + (p - 25000) * 0.025
        else if p \<le> 200000 then 1685 + (p - 75000) * 0.035
        else if p \<le> 375000 then 6060 + (p - 200000) * 0.04
        else if p \<le> 725000 then 13060 + (p - 375000) * 0.0425
        else 27935 + (p - 725000) * 0.045)
     else if s = ''ACT'' then
       (if p \<le> 260000 then p * 0.006 * (p / 100)
        else if p \<le> 300000 then p * 0.02273
        else if p \<le> 500000 then p * 0.0344
        else if p \<le> 750000 then p * 0.0419
        else if p \<le> 1000000 then p * 0.0458
        else if p \<le> 1455000 then p * 0.0494
        else p * 0.055)
     else if s = ''NT'' then
       (let v = p / 1000 in
        if p \<le> 525000 then (0.06571441 * v * v + 15 * v) * 1
        else p * 0.0495)
     else p * 0.04)"

subsection \<open>Mortgage and transfer registration fee\<close>

text \<open>The table \<^verbatim>\<open>fees\<close>: transfer fee and mortgage registration fee per code.\<close>

definition fees :: "string \<rightharpoonup> real \<times> real" where
  "fees = map_of
     [(''NSW'', (175.70, 175.70)),
      (''VIC'', (128.50, 128.50)),
      (''QLD'', (238.14, 238.14)),
      (''WA'', (203.00, 203.00)),
      (''SA'', (187.00, 187.00)),
      (''TAS'', (217.00, 152.19)),
      (''ACT'', (166.00, 166.00)),
      (''NT'', (152.00, 165.00))]"

definition fee_pair :: "string \<Rightarrow> real \<times> real" where
  "fee_pair s = (case fees s of Some tm \<Rightarrow> tm | None \<Rightarrow> (175, 175))"

definition calcMortgageFee :: "string \<Rightarrow> real \<Rightarrow> real" where
  "calcMortgageFee state price =
    (let s = toUpperCase (or_NSW state);
         (tf, mr) = fee_pair s;
         total = tf * 2 + mr
     in of_int \<lceil>total / 100\<rceil> * 100)"

subsection \<open>Lender's mortgage insurance\<close>

definition calcLMI :: "real \<Rightarrow> real \<Rightarrow> real" where
  "calcLMI depositPct loan =
    (if depositPct \<ge> 0.20 then 0
     else if depositPct \<ge> 0.15 then 0.01 * loan
     else if depositPct \<ge> 0.12 then 0.017 * loan
     else if depositPct \<ge> 0.10 then 0.025 * loan
     else 0.035 * loan)"

subsection \<open>JavaScript values and the helpers \<^verbatim>\<open>num\<close>, \<^verbatim>\<open>pct\<close>\<close>

text \<open>
  The values an input field or the \<^verbatim>\<open>state\<close> argument can hold. Objects, arrays,
  symbols and big integers are left out.
\<close>

datatype jsval = JUndefined | JNull | JBool bool | JNum real | JStr string

datatype js_error = TypeError

fun truthy :: "jsval \<Rightarrow> bool" where
  "truthy JUndefined = False"
| "truthy JNull = False"
| "truthy (JBool b) = b"
| "truthy (JNum x) = (x \<noteq> 0)"
| "truthy (JStr s) = (s \<noteq> [])"

text \<open>\<^verbatim>\<open>v != null\<close>: loose inequality, false for \<^verbatim>\<open>undefined\<close> and \<^verbatim>\<open>null\<close> only.\<close>

fun not_null :: "jsval \<Rightarrow> bool" where
  "not_null JUndefined = False"
| "not_null JNull = False"
| "not_null v = True"

definition is_digit :: "char \<Rightarrow> bool" where
  "is_digit c = (c \<in> set ''0123456789'')"

definition digit_val :: "char \<Rightarrow> nat" where
  "digit_val c =
     (case map_of (zip ''0123456789'' [0, 1, 2, 3, 4, 5, 6, 7, 8, 9]) c of
        Some d \<Rightarrow> d
      | None \<Rightarrow> 0)"

definition digits_val :: "string \<Rightarrow> nat" where
  "digits_val ds = foldl (\<lambda>a c. 10 * a + digit_val c) 0 ds"

text \<open>An optional sign in front of the rest of the string: is it negative, and the rest.\<close>

fun take_sign :: "string \<Rightarrow> bool \<times> string" where
  "take_sign [] = (False, [])"
| "take_sign (c # r) =
     (if c = CHR ''-'' then (True, r) else if c = CHR ''+'' then (False, r) else (False, c # r))"

text \<open>
  The exponent part of a decimal literal: \<^verbatim>\<open>e\<close> or \<^verbatim>\<open>E\<close>, an optional sign and at least
  one digit; anything else is no exponent.
\<close>

definition exponent_of :: "string \<Rightarrow> int" where
  "exponent_of r =
     (case r of
        [] \<Rightarrow> 0
      | c # r' \<Rightarrow>
          if c = CHR ''e'' \<or> c = CHR ''E'' then
            (let (neg, r'') = take_sign r'; ds = takeWhile is_digit r'' in
             if ds = [] then 0
             else if neg then - int (digits_val ds) else int (digits_val ds))
          else 0)"

text \<open>
  \<^verbatim>\<open>parseFloat\<close>: leading white space is skipped, the longest prefix that is a decimal
  literal is read, the rest is ignored; \<open>None\<close> stands for NaN. The literal
  \<^verbatim>\<open>Infinity\<close>, which \<^verbatim>\<open>parseFloat\<close> also reads, denotes no real number and is
  \<open>None\<close> here.
\<close>

definition parseFloat :: "string \<Rightarrow> real option" where
  "parseFloat s =
     (let (neg, s1) = take_sign (dropWhile is_ws s);
          ip = takeWhile is_digit s1;
          r1 = dropWhile is_digit s1;
          fp = (case r1 of [] \<Rightarrow> [] | c # r \<Rightarrow> if c = CHR ''.'' then takeWhile is_digit r else []);
          r2 = (case r1 of [] \<Rightarrow> [] | c # r \<Rightarrow> if c = CHR ''.'' then dropWhile is_digit r else r1);
          mag = (of_nat (digits_val ip) + of_nat (digits_val fp) / 10 ^ length fp)
                  * 10 powi exponent_of r2
      in if ip = [] \<and> fp = [] then None
         else Some (if neg then - mag else mag))"

text \<open>\<^verbatim>\<open>String(v).replace(/[,$%]/g, "")\<close> on a string.\<close>

definition strip_symbols :: "string \<Rightarrow> string" where
  "strip_symbols s = filter (\<lambda>c. c \<notin> set '',$%'') s"

text \<open>\<^verbatim>\<open>parseFloat(...) || 0\<close>: NaN and zero both give 0.\<close>

definition parse_or_0 :: "string \<Rightarrow> real" where
  "parse_or_0 s = (case parseFloat s of None \<Rightarrow> 0 | Some x \<Rightarrow> x)"

text \<open>
  \<^verbatim>\<open>num\<close>: a number is returned as it is, a falsy value is 0, anything else is turned
  into a string, stripped and parsed (\<^verbatim>\<open>String(true)\<close> is \<^verbatim>\<open>"true"\<close>).
\<close>

fun num :: "jsval \<Rightarrow> real" where
  "num (JNum x) = x"
| "num JUndefined = 0"
| "num JNull = 0"
| "num (JBool b) = (if \<not> b then 0 else parse_or_0 (strip_symbols ''true''))"
| "num (JStr s) = (if s = [] then 0 else parse_or_0 (strip_symbols s))"

definition pct :: "jsval \<Rightarrow> real" where
  "pct v = (let n = num v in if n > 1 then n / 100 else n)"

subsection \<open>Number formatting\<close>

definition digit_char :: "nat \<Rightarrow> char" where
  "digit_char d = ''0123456789'' ! d"

fun show_nat :: "nat \<Rightarrow> string" where
  "show_nat n = (if n < 10 then [digit_char n] else show_nat (n div 10) @ [digit_char (n mod 10)])"

declare show_nat.simps [simp del]

definition show_int :: "int \<Rightarrow> string" where
  "show_int i = (if i < 0 then CHR ''-'' # show_nat (nat (- i)) else show_nat (nat i))"

text \<open>Thousands separators, on the digits in reverse order.\<close>

fun group_rev :: "string \<Rightarrow> string" where
  "group_rev (a # b # c # d # r) = a # b # c # CHR '','' # group_rev (d # r)"
| "group_rev ds = ds"

definition group3 :: "string \<Rightarrow> string" where
  "group3 ds = rev (group_rev (rev ds))"

text \<open>
  \<^verbatim>\<open>fmt\<close>: \<^verbatim>\<open>toLocaleString("en-AU", ...)\<close> with exactly two fraction digits: the
  magnitude is rounded half away from zero to hundredths, the integer digits are grouped
  by comma, the decimal separator is the full stop, a negative number has a leading minus.
\<close>

definition fmt :: "real \<Rightarrow> string" where
  "fmt n =
     (let c = nat \<lfloor>\<bar>n\<bar> * 100 + 1 / 2\<rfloor> in
      (if n < 0 then ''-'' else []) @ group3 (show_nat (c div 100)) @ ''.''
        @ [digit_char (c mod 100 div 10), digit_char (c mod 10)])"

text \<open>
  \<^verbatim>\<open>x.toFixed(f)\<close> for magnitudes below \<open>10^21\<close>: the nearest integer to
  \<open>\<bar>x\<bar> * 10^f\<close> (the larger of two), padded with zeros to \<open>f + 1\<close> digits, with the
  point before the last \<open>f\<close> digits.
\<close>

definition toFixed :: "real \<Rightarrow> nat \<Rightarrow> string" where
  "toFixed x f =
     (let c = nat \<lfloor>\<bar>x\<bar> * 10 ^ f + 1 / 2\<rfloor>;
          ds = show_nat c;
          ds' = replicate (f + 1 - length ds) CHR ''0'' @ ds;
          k = length ds' - f
      in (if x < 0 then ''-'' else []) @ take k ds'
           @ (if f = 0 then [] else CHR ''.'' # drop k ds'))"

text \<open>\<^verbatim>\<open>Math.round(x) + "%"\<close>: half rounds up; the integer is printed in decimal.\<close>

definition Math_round :: "real \<Rightarrow> int" where
  "Math_round x = \<lfloor>x + 1 / 2\<rfloor>"

definition round_percent :: "real \<Rightarrow> string" where
  "round_percent x = show_int (Math_round x) @ ''%''"

subsection \<open>Amortisation\<close>

text \<open>
  \<^verbatim>\<open>pmtAnnual\<close>. The term is a number of whole years (the one call passes 30), so
  \<^verbatim>\<open>Math.pow(1 + r, n)\<close> is a power with a natural exponent. Where the source divides
  by zero (a term of 0 years) it yields a non-finite double; here the quotient is 0.
  The parameter \<^verbatim>\<open>principal\<close> is written \<open>princ\<close>.
\<close>

definition pmtAnnual :: "real \<Rightarrow> nat \<Rightarrow> real \<Rightarrow> real" where
  "pmtAnnual annualRate years princ =
     (let r = annualRate / 12;
          n = years * 12
      in if r = 0 then princ / of_nat n * 12
         else (let monthlyPmt = princ * (r * (1 + r) ^ n) / ((1 + r) ^ n - 1)
               in monthlyPmt * 12))"

subsection \<open>Defaults\<close>

text \<open>
  The fields of the object \<^verbatim>\<open>DEFAULTS\<close> (\<^verbatim>\<open>D\<close> in \<^verbatim>\<open>calculateCashflow\<close>):
  \<^verbatim>\<open>D.legals\<close> is \<open>D_legals\<close>.
\<close>

definition D_depositPercent :: real where "D_depositPercent = 0.20"
definition D_legals :: real where "D_legals = 1500"
definition D_pestReport :: real where "D_pestReport = 500"
definition D_buyersAgencyFee :: real where "D_buyersAgencyFee = 15000"
definition D_councilAnnually :: real where "D_councilAnnually = 3000"
definition D_buildingInsAnnually :: real where "D_buildingInsAnnually = 1500"
definition D_otherAnnually :: real where "D_otherAnnually = 2000"
definition D_normalIORate :: real where "D_normalIORate = 0.0625"
definition D_normalPIRate :: real where "D_normalPIRate = 0.06"
definition D_smsfIORate :: real where "D_smsfIORate = 0.0725"
definition D_smsfPIRate :: real where "D_smsfPIRate = 0.07"
definition D_normalTaxBracket :: real where "D_normalTaxBracket = 0.42"
definition D_smsfTaxBracket :: real where "D_smsfTaxBracket = 0"

definition LANDLORD_INS :: "string \<rightharpoonup> real" where
  "LANDLORD_INS = map_of
     [(''WA'', 1500), (''QLD'', 2000), (''VIC'', 2000), (''NSW'', 1500), (''SA'', 1500),
      (''TAS'', 1500)]"

definition MGMT_FEE_PCT :: "string \<rightharpoonup> real" where
  "MGMT_FEE_PCT = map_of
     [(''WA'', 0.09), (''QLD'', 0.07), (''VIC'', 0.055), (''NSW'', 0.055), (''SA'', 0.07),
      (''TAS'', 0.07)]"

text \<open>\<^verbatim>\<open>TABLE[st] || dflt\<close>: a missing key is \<^verbatim>\<open>undefined\<close>, and a zero entry is falsy too.\<close>

definition lookup_or :: "(string \<rightharpoonup> real) \<Rightarrow> string \<Rightarrow> real \<Rightarrow> real" where
  "lookup_or table st dflt =
     (case table st of None \<Rightarrow> dflt | Some v \<Rightarrow> if v \<noteq> 0 then v else dflt)"

subsection \<open>The cashflow calculator\<close>

text \<open>
  The input object is a finite map from field names to values; a field that is not
  there reads as \<^verbatim>\<open>undefined\<close>. Each \<^verbatim>\<open>const\<close> of \<^verbatim>\<open>calculateCashflow\<close> is a
  definition of the same name, a function of the arguments it depends on: the input,
  the normalised state code \<open>st\<close> and the flag \<open>isSMSF\<close>.
\<close>

type_synonym input = "string \<rightharpoonup> jsval"

definition field :: "input \<Rightarrow> string \<Rightarrow> jsval" where
  "field input k = (case input k of None \<Rightarrow> JUndefined | Some v \<Rightarrow> v)"

text \<open>\<^verbatim>\<open>input.k != null ? num(input.k) : d\<close> and the same with \<^verbatim>\<open>pct\<close>.\<close>

definition num_or :: "input \<Rightarrow> string \<Rightarrow> real \<Rightarrow> real" where
  "num_or input k d = (if not_null (field input k) then num (field input k) else d)"

definition pct_or :: "input \<Rightarrow> string \<Rightarrow> real \<Rightarrow> real" where
  "pct_or input k d = (if not_null (field input k) then pct (field input k) else d)"

definition price :: "input \<Rightarrow> real" where
  "price input = num (field input ''purchasePrice'')"

definition depositPct :: "input \<Rightarrow> real" where
  "depositPct input = pct_or input ''depositPercent'' D_depositPercent"

definition deposit :: "input \<Rightarrow> real" where
  "deposit input = price input * depositPct input"

definition loan :: "input \<Rightarrow> real" where
  "loan input = price input * (1 - depositPct input)"

definition lvrPct :: "input \<Rightarrow> real" where
  "lvrPct input = (1 - depositPct input) * 100"

definition stampDuty :: "input \<Rightarrow> string \<Rightarrow> real" where
  "stampDuty input st =
     (if not_null (field input ''stampDuty'') then num (field input ''stampDuty'')
      else calcStampDuty (price input) st)"

definition mortgageFee :: "input \<Rightarrow> string \<Rightarrow> real" where
  "mortgageFee input st =
     (if not_null (field input ''mortgageFee'') then num (field input ''mortgageFee'')
      else calcMortgageFee st (price input))"

definition lmi :: "input \<Rightarrow> real" where
  "lmi input =
     (if not_null (field input ''lmi'') then num (field input ''lmi'')
      else calcLMI (depositPct input) (loan input))"

definition legals :: "input \<Rightarrow> real" where
  "legals input = num_or input ''legals'' D_legals"

definition pestReport :: "input \<Rightarrow> real" where
  "pestReport input = num_or input ''pestReport'' D_pestReport"

definition strataReport :: "input \<Rightarrow> real" where
  "strataReport input = num (field input ''strataReport'')"

definition buyersAgencyFee :: "input \<Rightarrow> real" where
  "buyersAgencyFee input = num_or input ''buyersAgencyFee'' D_buyersAgencyFee"

definition renovation :: "input \<Rightarrow> real" where
  "renovation input = num (field input ''renovation'')"

definition totalFunds :: "input \<Rightarrow> string \<Rightarrow> real" where
  "totalFunds input st =
     deposit input + stampDuty input st + mortgageFee input st + lmi input + legals input
       + pestReport input + strataReport input + buyersAgencyFee input + renovation input"

definition lowerRentWk :: "input \<Rightarrow> real" where
  "lowerRentWk input = num (field input ''lowerRentWeekly'')"

text \<open>\<^verbatim>\<open>num(input.higherRentWeekly) || lowerRentWk\<close>\<close>

definition higherRentWk :: "input \<Rightarrow> real" where
  "higherRentWk input =
     (if num (field input ''higherRentWeekly'') \<noteq> 0 then num (field input ''higherRentWeekly'')
      else lowerRentWk input)"

definition lowerRentAnn :: "input \<Rightarrow> real" where
  "lowerRentAnn input = lowerRentWk input * 52"

definition higherRentAnn :: "input \<Rightarrow> real" where
  "higherRentAnn input = higherRentWk input * 52"

definition yieldBase :: "input \<Rightarrow> real" where
  "yieldBase input = price input + renovation input"

definition yieldLow :: "input \<Rightarrow> real" where
  "yieldLow input =
     (if yieldBase input > 0 then (lowerRentAnn input / yieldBase input) * 100 else 0)"

definition yieldHigh :: "input \<Rightarrow> real" where
  "yieldHigh input =
     (if yieldBase input > 0 then (higherRentAnn input / yieldBase input) * 100 else 0)"

definition councilAnn :: "input \<Rightarrow> real" where
  "councilAnn input = num_or input ''councilAnnually'' D_councilAnnually"

definition strataAnn :: "input \<Rightarrow> real" where
  "strataAnn input = num (field input ''strataAnnually'')"

definition buildingInsAnn :: "input \<Rightarrow> real" where
  "buildingInsAnn input = num_or input ''buildingInsAnnually'' D_buildingInsAnnually"

definition landlordInsAnn :: "input \<Rightarrow> string \<Rightarrow> real" where
  "landlordInsAnn input st =
     num_or input ''landlordInsAnnually'' (lookup_or LANDLORD_INS st 1500)"

definition otherAnn :: "input \<Rightarrow> real" where
  "otherAnn input = num_or input ''otherAnnually'' D_otherAnnually"

definition mgmtPct :: "input \<Rightarrow> string \<Rightarrow> real" where
  "mgmtPct input st = pct_or input ''mgmtFeePercent'' (lookup_or MGMT_FEE_PCT st 0.055)"

definition mgmtAnn :: "input \<Rightarrow> string \<Rightarrow> real" where
  "mgmtAnn input st = lowerRentAnn input * mgmtPct input st"

definition ioRate :: "input \<Rightarrow> bool \<Rightarrow> real" where
  "ioRate input isSMSF =
     (if isSMSF then pct_or input ''interestOnlyRate'' D_smsfIORate
      else pct_or input ''interestOnlyRate'' D_normalIORate)"

definition piRate :: "input \<Rightarrow> bool \<Rightarrow> real" where
  "piRate input isSMSF =
     (if isSMSF then pct_or input ''principalInterestRate'' D_smsfPIRate
      else pct_or input ''principalInterestRate'' D_normalPIRate)"

definition ioAnn :: "input \<Rightarrow> bool \<Rightarrow> real" where
  "ioAnn input isSMSF = loan input * ioRate input isSMSF"

definition piAnn :: "input \<Rightarrow> bool \<Rightarrow> real" where
  "piAnn input isSMSF = pmtAnnual (piRate input isSMSF) 30 (loan input)"

definition totalExpAnn :: "input \<Rightarrow> string \<Rightarrow> bool \<Rightarrow> real" where
  "totalExpAnn input st isSMSF =
     (if isSMSF then
        councilAnn input + strataAnn input + buildingInsAnn input + landlordInsAnn input st
          + otherAnn input + mgmtAnn input st + piAnn input isSMSF
      else
        councilAnn input + strataAnn input + buildingInsAnn input + landlordInsAnn input st
          + otherAnn input + mgmtAnn input st + ioAnn input isSMSF)"

definition totalExpLabel :: "input \<Rightarrow> bool \<Rightarrow> jsval" where
  "totalExpLabel input isSMSF =
     (if truthy (field input ''totalExpenseLabel'') then field input ''totalExpenseLabel''
      else if isSMSF then JStr ''*Total Expense (with Principal & Interest loan)''
      else JStr ''*Total Expense (with Interest Only loan)'')"

definition cfBTLowAnn :: "input \<Rightarrow> string \<Rightarrow> bool \<Rightarrow> real" where
  "cfBTLowAnn input st isSMSF = lowerRentAnn input - totalExpAnn input st isSMSF"

definition cfBTHighAnn :: "input \<Rightarrow> string \<Rightarrow> bool \<Rightarrow> real" where
  "cfBTHighAnn input st isSMSF = higherRentAnn input - totalExpAnn input st isSMSF"

definition taxBracket :: "input \<Rightarrow> bool \<Rightarrow> real" where
  "taxBracket input isSMSF =
     (if isSMSF then pct_or input ''taxBracket'' D_smsfTaxBracket
      else pct_or input ''taxBracket'' D_normalTaxBracket)"

definition cfATLowAnn :: "input \<Rightarrow> string \<Rightarrow> bool \<Rightarrow> real" where
  "cfATLowAnn input st isSMSF = cfBTLowAnn input st isSMSF * (1 - taxBracket input isSMSF)"

definition cfATHighAnn :: "input \<Rightarrow> string \<Rightarrow> bool \<Rightarrow> real" where
  "cfATHighAnn input st isSMSF = cfBTHighAnn input st isSMSF * (1 - taxBracket input isSMSF)"

text \<open>The closures \<^verbatim>\<open>w\<close> and \<^verbatim>\<open>m\<close>.\<close>

definition weekly :: "real \<Rightarrow> real" where
  "weekly a = a / 52"

definition monthly :: "real \<Rightarrow> real" where
  "monthly a = a / 12"

definition disclaimerRate :: "input \<Rightarrow> bool \<Rightarrow> string" where
  "disclaimerRate input isSMSF =
     (if isSMSF then toFixed (D_smsfPIRate * 100) 0 @ ''%''
      else toFixed (ioRate input isSMSF * 100) 0 @ ''%'')"

text \<open>
  The returned object, as the list of its properties in the order of the source. The
  parameter \<open>today\<close> is \<^verbatim>\<open>new Date().toLocaleDateString("en-AU")\<close>.
\<close>

definition result_object :: "input \<Rightarrow> string \<Rightarrow> bool \<Rightarrow> string \<Rightarrow> (string \<times> jsval) list" where
  "result_object input st isSMSF today =
     [(''date'', (if truthy (field input ''date'') then field input ''date'' else JStr today)),
      (''purchasePrice'', JStr (fmt (price input))),
      (''depositPercent'', JStr (round_percent (depositPct input * 100))),
      (''lvrPercent'', JStr (round_percent (lvrPct input))),
      (''loanAmount'', JStr (fmt (loan input))),
      (''depositAmount'', JStr (fmt (deposit input))),
      (''depositPercentLabel'', JStr (round_percent (depositPct input * 100))),
      (''stampDuty'', JStr (fmt (stampDuty input st))),
      (''lmi'', JStr (if lmi input \<noteq> 0 then fmt (lmi input) else [])),
      (''mortgageFee'', JStr (fmt (mortgageFee input st))),
      (''legals'', JStr (fmt (legals input))),
      (''pestReport'', JStr (fmt (pestReport input))),
      (''strataReport'', JStr (if strataReport input \<noteq> 0 then fmt (strataReport input) else [])),
      (''buyersAgencyFee'', JStr (fmt (buyersAgencyFee input))),
      (''renovation'', JStr (if renovation input \<noteq> 0 then fmt (renovation input) else [])),
      (''totalFundsRequired'', JStr (fmt (totalFunds input st))),
      (''yieldLowRent'', JStr (toFixed (yieldLow input) 2 @ ''%'')),
      (''yieldHighRent'', JStr (toFixed (yieldHigh input) 2 @ ''%'')),
      (''lowerRentWeekly'', JStr (fmt (lowerRentWk input))),
      (''lowerRentMonthly'', JStr (fmt (monthly (lowerRentAnn input)))),
      (''lowerRentAnnually'', JStr (fmt (lowerRentAnn input))),
      (''higherRentWeekly'', JStr (fmt (higherRentWk input))),
      (''higherRentMonthly'', JStr (fmt (monthly (higherRentAnn input)))),
      (''higherRentAnnually'', JStr (fmt (higherRentAnn input))),
      (''councilWeekly'', JStr (fmt (weekly (councilAnn input)))),
      (''councilMonthly'', JStr (fmt (monthly (councilAnn input)))),
      (''councilAnnually'', JStr (fmt (councilAnn input))),
      (''strataWeekly'', JStr (if strataAnn input \<noteq> 0 then fmt (weekly (strataAnn input)) else [])),
      (''strataMonthly'', JStr (if strataAnn input \<noteq> 0 then fmt (monthly (strataAnn input)) else [])),
      (''strataAnnually'', JStr (if strataAnn input \<noteq> 0 then fmt (strataAnn input) else [])),
      (''buildingInsWeekly'', JStr (if buildingInsAnn input \<noteq> 0 then fmt (weekly (buildingInsAnn input)) else [])),
      (''buildingInsMonthly'', JStr (if buildingInsAnn input \<noteq> 0 then fmt (monthly (buildingInsAnn input)) else [])),
      (''buildingInsAnnually'', JStr (if buildingInsAnn input \<noteq> 0 then fmt (buildingInsAnn input) else [])),
      (''landlordInsWeekly'', JStr (fmt (weekly (landlordInsAnn input st)))),
      (''landlordInsMonthly'', JStr (fmt (monthly (landlordInsAnn input st)))),
      (''landlordInsAnnually'', JStr (fmt (landlordInsAnn input st))),
      (''otherWeekly'', JStr (if otherAnn input \<noteq> 0 then fmt (weekly (otherAnn input)) else [])),
      (''otherMonthly'', JStr (if otherAnn input \<noteq> 0 then fmt (monthly (otherAnn input)) else [])),
      (''otherAnnually'', JStr (if otherAnn input \<noteq> 0 then fmt (otherAnn input) else [])),
      (''mgmtFeePercent'', JStr (toFixed (mgmtPct input st * 100) 2 @ ''%'')),
      (''mgmtFeeWeekly'', JStr (fmt (weekly (mgmtAnn input st)))),
      (''mgmtFeeMonthly'', JStr (fmt (monthly (mgmtAnn input st)))),
      (''mgmtFeeAnnually'', JStr (fmt (mgmtAnn input st))),
      (''interestOnlyRate'', JStr (toFixed (ioRate input isSMSF * 100) 2 @ ''%'')),
      (''interestOnlyWeekly'', JStr (fmt (weekly (ioAnn input isSMSF)))),
      (''interestOnlyMonthly'', JStr (fmt (monthly (ioAnn input isSMSF)))),
      (''interestOnlyAnnually'', JStr (fmt (ioAnn input isSMSF))),
      (''principalInterestRate'', JStr (toFixed (piRate input isSMSF * 100) 2 @ ''%'')),
      (''principalInterestWeekly'', JStr (fmt (weekly (piAnn input isSMSF)))),
      (''principalInterestMonthly'', JStr (fmt (monthly (piAnn input isSMSF)))),
      (''principalInterestAnnually'', JStr (fmt (piAnn input isSMSF))),
      (''totalExpenseLabel'', totalExpLabel input isSMSF),
      (''totalExpenseWeekly'', JStr (fmt (weekly (totalExpAnn input st isSMSF)))),
      (''totalExpenseMonthly'', JStr (fmt (monthly (totalExpAnn input st isSMSF)))),
      (''totalExpenseAnnually'', JStr (fmt (totalExpAnn input st isSMSF))),
      (''cfBeforeTaxLowerWeekly'', JStr (fmt (\<bar>weekly (cfBTLowAnn input st isSMSF)\<bar>))),
      (''cfBeforeTaxLowerMonthly'', JStr (fmt (\<bar>monthly (cfBTLowAnn input st isSMSF)\<bar>))),
      (''cfBeforeTaxLowerAnnually'', JStr (fmt (\<bar>cfBTLowAnn input st isSMSF\<bar>))),
      (''cfBeforeTaxHigherWeekly'', JStr (fmt (\<bar>weekly (cfBTHighAnn input st isSMSF)\<bar>))),
      (''cfBeforeTaxHigherMonthly'', JStr (fmt (\<bar>monthly (cfBTHighAnn input st isSMSF)\<bar>))),
      (''cfBeforeTaxHigherAnnually'', JStr (fmt (\<bar>cfBTHighAnn input st isSMSF\<bar>))),
      (''taxBracket'', JStr (round_percent (taxBracket input isSMSF * 100))),
      (''disclaimerRate'', JStr (disclaimerRate input isSMSF)),
      (''cfAfterTaxLowerWeekly'', JStr (fmt (\<bar>weekly (cfATLowAnn input st isSMSF)\<bar>))),
      (''cfAfterTaxLowerMonthly'', JStr (fmt (\<bar>monthly (cfATLowAnn input st isSMSF)\<bar>))),
      (''cfAfterTaxLowerAnnually'', JStr (fmt (\<bar>cfATLowAnn input st isSMSF\<bar>))),
      (''cfAfterTaxHigherWeekly'', JStr (fmt (\<bar>weekly (cfATHighAnn input st isSMSF)\<bar>))),
      (''cfAfterTaxHigherMonthly'', JStr (fmt (\<bar>monthly (cfATHighAnn input st isSMSF)\<bar>))),
      (''cfAfterTaxHigherAnnually'', JStr (fmt (\<bar>cfATHighAnn input st isSMSF\<bar>)))]"

text \<open>
  \<^verbatim>\<open>(state || "NSW").toUpperCase().trim()\<close>: a falsy state is replaced by the default
  code; a truthy value that is no string has no method \<^verbatim>\<open>toUpperCase\<close>, and the call
  throws a \<^verbatim>\<open>TypeError\<close>.
\<close>

definition state_code :: "jsval \<Rightarrow> js_error + string" where
  "state_code state =
     (if \<not> truthy state then Inr (trim (toUpperCase ''NSW''))
      else (case state of JStr s \<Rightarrow> Inr (trim (toUpperCase s)) | _ \<Rightarrow> Inl TypeError))"

definition calculateCashflow ::
  "input \<Rightarrow> jsval \<Rightarrow> bool \<Rightarrow> string \<Rightarrow> js_error + (string \<times> jsval) list" where
  "calculateCashflow input state isSMSF today =
     (case state_code state of
        Inl e \<Rightarrow> Inl e
      | Inr st \<Rightarrow> Inr (result_object input st isSMSF today))"


subsection \<open>Reading the result\<close>

text \<open>The property \<open>k\<close> of a returned object; nothing when the call threw.\<close>

definition result_field :: "js_error + (string \<times> jsval) list \<Rightarrow> string \<Rightarrow> jsval option" where
  "result_field r k = (case r of Inl e \<Rightarrow> None | Inr out \<Rightarrow> map_of out k)"





subsection \<open>Example inputs\<close>

text \<open>
  The scenario of the specification (price 600000, rent 500 a week, deposit 20 per cent),
  the same purchase paid in full by the deposit, an input with a price of zero written as
  a currency string, and an input that sets every percentage field.
\<close>

definition scenario_input :: input where
  "scenario_input =
     map_of [(''purchasePrice'', JNum 600000), (''lowerRentWeekly'', JNum 500),
       (''depositPercent'', JNum 0.20)]"

definition cash_purchase_input :: input where
  "cash_purchase_input =
     map_of [(''purchasePrice'', JNum 600000), (''lowerRentWeekly'', JNum 500),
       (''depositPercent'', JNum 1)]"


definition percent_input :: input where
  "percent_input =
     map_of [(''depositPercent'', JNum 20), (''mgmtFeePercent'', JStr ''7%''),
       (''interestOnlyRate'', JNum 1), (''principalInterestRate'', JStr ''0.065''),
       (''taxBracket'', JStr ''37'')]"

section \<open>Properties\<close>

lemmas DEFAULTS_defs =
  D_depositPercent_def D_legals_def D_pestReport_def D_buyersAgencyFee_def
  D_councilAnnually_def D_buildingInsAnnually_def D_otherAnnually_def
  D_normalIORate_def D_normalPIRate_def D_smsfIORate_def D_smsfPIRate_def
  D_normalTaxBracket_def D_smsfTaxBracket_def

lemmas string_defs = or_NSW_def toUpperCase_def upper_char_def trim_def is_ws_def

lemmas parse_defs =
  parse_or_0_def strip_symbols_def parseFloat_def is_ws_def is_digit_def digits_val_def
  digit_val_def exponent_of_def

lemmas show_defs = fmt_def toFixed_def group3_def show_nat.simps digit_char_def

subsection \<open>Stamp duty\<close>

lemma calcStampDuty_nonneg: "0 \<le> p \<Longrightarrow> 0 \<le> calcStampDuty p s"
  unfolding calcStampDuty_def Let_def by (simp split: if_splits)

text \<open>
  The schedules of NSW, VIC, QLD, WA and TAS and the flat fallback rate never step down
  at a bracket boundary.
\<close>

lemma calcStampDuty_mono_brackets:
  assumes "trim (toUpperCase (or_NSW s)) \<notin> {''SA'', ''ACT'', ''NT''}" "p1 \<le> p2"
  shows "calcStampDuty p1 s \<le> calcStampDuty p2 s"
proof -
  let ?c = "trim (toUpperCase (or_NSW s))"
  consider "?c = ''NSW''" | "?c = ''VIC''" | "?c = ''QLD''" | "?c = ''WA''" | "?c = ''TAS''"
    | "?c \<notin> {''NSW'', ''VIC'', ''QLD'', ''WA'', ''SA'', ''TAS'', ''ACT'', ''NT''}"
    using assms(1) by auto
  then show ?thesis
  proof cases
    case 1 with assms(2) show ?thesis
      unfolding calcStampDuty_def Let_def by (auto split: if_splits; argo)
  next
    case 2 with assms(2) show ?thesis
      unfolding calcStampDuty_def Let_def by (auto split: if_splits; argo)
  next
    case 3 with assms(2) show ?thesis
      unfolding calcStampDuty_def Let_def by (auto split: if_splits simp: field_simps)
  next
    case 4 with assms(2) show ?thesis
      unfolding calcStampDuty_def Let_def by (auto split: if_splits simp: field_simps)
  next
    case 5 with assms(2) show ?thesis
      unfolding calcStampDuty_def Let_def by (auto split: if_splits; argo)
  next
    case 6 with assms(2) show ?thesis
      unfolding calcStampDuty_def Let_def by simp
  qed
qed

lemma calcStampDuty_NT:
  "trim (toUpperCase (or_NSW s)) = ''NT'' \<Longrightarrow>
   calcStampDuty p s =
     (if p \<le> 525000 then 0.06571441 * (p / 1000) * (p / 1000) + 15 * (p / 1000)
      else p * 0.0495)"
  unfolding calcStampDuty_def Let_def by simp

lemma NT_formula_mono:
  fixes p1 p2 :: real
  assumes "0 \<le> p1" "p1 \<le> p2"
  shows "0.06571441 * (p1 / 1000) * (p1 / 1000) + 15 * (p1 / 1000)
       \<le> 0.06571441 * (p2 / 1000) * (p2 / 1000) + 15 * (p2 / 1000)"
proof -
  have "p1 * p1 \<le> p2 * p2" using assms by (intro mult_mono) auto
  then have "0.06571441 * (p1 * p1) / 1000000 \<le> 0.06571441 * (p2 * p2) / (1000000::real)"
    by simp
  moreover have "15 * (p1 / 1000) \<le> 15 * (p2 / 1000)" using assms by simp
  ultimately show ?thesis by (simp add: field_simps)
qed

lemma calcStampDuty_mono_NT:
  assumes c: "trim (toUpperCase (or_NSW s)) = ''NT''" and "0 \<le> p1" "p1 \<le> p2"
    and side: "p2 \<le> 525000 \<or> 525000 < p1 \<or> 525001 \<le> p2"
  shows "calcStampDuty p1 s \<le> calcStampDuty p2 s"
proof -
  consider "p2 \<le> 525000" | "525000 < p1" | "p1 \<le> 525000" "525001 \<le> p2"
    using side by linarith
  then show ?thesis
  proof cases
    case 1
    then have "p1 \<le> 525000" using assms by simp
    with 1 NT_formula_mono[OF assms(2,3)] show ?thesis by (simp add: calcStampDuty_NT[OF c])
  next
    case 2
    then have "525000 < p2" using assms by simp
    with 2 assms show ?thesis by (simp add: calcStampDuty_NT[OF c])
  next
    case 3
    have "calcStampDuty p1 s
        \<le> 0.06571441 * (525000 / 1000) * (525000 / 1000) + 15 * (525000 / (1000::real))"
      using NT_formula_mono[OF assms(2) 3(1)] 3(1) by (simp add: calcStampDuty_NT[OF c])
    also have "\<dots> \<le> 525001 * 0.0495" by simp
    also have "\<dots> \<le> calcStampDuty p2 s" using 3(2) by (simp add: calcStampDuty_NT[OF c])
    finally show ?thesis .
  qed
qed

text \<open>
  Claim C1, as the code has it. For every jurisdiction code and all prices
  \<open>0 \<le> p1 \<le> p2\<close> the duty is non-negative. It is non-decreasing in the price for
  every code other than SA, ACT and NT (that is NSW, VIC, QLD, WA, TAS and the flat
  rate of an unknown code). For NT it is non-decreasing when both prices lie on the same
  side of 525000, and across that boundary when the higher price is at least 525001: the
  quadratic formula ends at 25987.53 and the 4.95 per cent rate starts at 25987.50.
\<close>

theorem calcStampDuty_nonneg_mono:
  assumes "0 \<le> p1" "p1 \<le> p2"
  shows "0 \<le> calcStampDuty p1 s \<and>
    (trim (toUpperCase (or_NSW s)) \<notin> {''SA'', ''ACT'', ''NT''}
       \<longrightarrow> calcStampDuty p1 s \<le> calcStampDuty p2 s) \<and>
    (trim (toUpperCase (or_NSW s)) = ''NT'' \<and> (p2 \<le> 525000 \<or> 525000 < p1 \<or> 525001 \<le> p2)
       \<longrightarrow> calcStampDuty p1 s \<le> calcStampDuty p2 s)"
  using assms calcStampDuty_nonneg calcStampDuty_mono_brackets calcStampDuty_mono_NT by blast

theorem calcStampDuty_nonneg_mono_witness:
  "(0::real) \<le> 100000 \<and> (100000::real) \<le> 200000
   \<and> 0 \<le> calcStampDuty 100000 ''nsw''
   \<and> calcStampDuty 100000 ''nsw'' \<le> calcStampDuty 200000 ''nsw''
   \<and> calcStampDuty 100000 '' nt'' \<le> calcStampDuty 200000 '' nt''"
  using calcStampDuty_nonneg_mono[of 100000 200000 "''nsw''"]
    calcStampDuty_nonneg_mono[of 100000 200000 "'' nt''"]
  by (simp add: string_defs)

text \<open>
  Claim C1 as stated fails: in the Northern Territory a price of 525000.50 pays less duty
  than a price of 525000.
\<close>

theorem calcStampDuty_mono_counterexample:
  "(0::real) \<le> 525000 \<and> (525000::real) \<le> 525000.5
   \<and> \<not> calcStampDuty 525000 ''NT'' \<le> calcStampDuty 525000.5 ''NT''"
  by (simp add: calcStampDuty_def string_defs)

text \<open>
  The same happens, by far larger amounts, at the SA boundary of 300000 and the ACT
  boundary of 260000.
\<close>

lemma calcStampDuty_SA_ACT_drop:
  "calcStampDuty 300001 ''SA'' < calcStampDuty 300000 ''SA''"
  "calcStampDuty 260001 ''ACT'' < calcStampDuty 260000 ''ACT''"
  "calcStampDuty 260000 ''ACT'' = 4056000"
  by (simp_all add: calcStampDuty_def string_defs)

subsection \<open>Lender's mortgage insurance\<close>

text \<open>
  Claim C2. The premium is 0 for a deposit ratio of at least 0.20; below that it is the
  loan principal times the rate of the first band, from the top, whose inclusive lower
  bound the ratio reaches: 1.0 per cent from 0.15, 1.7 per cent from 0.12, 2.5 per cent
  from 0.10 and 3.5 per cent below. A ratio of exactly 0.15 pays 1.0 per cent.
\<close>

theorem calcLMI_bands:
  "(d \<ge> 0.20 \<longrightarrow> calcLMI d L = 0) \<and>
   (0.15 \<le> d \<and> d < 0.20 \<longrightarrow> calcLMI d L = 0.01 * L) \<and>
   (0.12 \<le> d \<and> d < 0.15 \<longrightarrow> calcLMI d L = 0.017 * L) \<and>
   (0.10 \<le> d \<and> d < 0.12 \<longrightarrow> calcLMI d L = 0.025 * L) \<and>
   (d < 0.10 \<longrightarrow> calcLMI d L = 0.035 * L) \<and>
   calcLMI 0.15 L = 0.01 * L"
  by (simp add: calcLMI_def)

theorem calcLMI_bands_witness:
  "calcLMI 0.25 1000 = 0 \<and> calcLMI 0.15 1000 = 10 \<and> calcLMI 0.13 1000 = 17
   \<and> calcLMI 0.10 1000 = 25 \<and> calcLMI 0.05 1000 = 35"
  using calcLMI_bands[of "0.25" 1000] calcLMI_bands[of "0.15" 1000]
    calcLMI_bands[of "0.13" 1000] calcLMI_bands[of "0.10" 1000] calcLMI_bands[of "0.05" 1000]
  by simp

subsection \<open>Mortgage registration fee\<close>





subsection \<open>Amortisation\<close>

text \<open>
  The compounding factor \<open>1.005 ^ 360\<close> of a 6 per cent loan over 30 years, enclosed
  by raising truncated decimals to the powers 5, 9 and 8.
\<close>

lemma compound_6_lower: "(6.02257521::real) \<le> (201 / 200) ^ 360"
proof -
  have a: "(1.025251253128::real) \<le> (201 / 200) ^ 5" by (simp add: power_divide)
  have "(1.251620820768::real) \<le> 1.025251253128 ^ 9" by (simp add: power_divide)
  also have "\<dots> \<le> ((201 / 200) ^ 5) ^ 9" by (rule power_mono[OF a]) simp
  finally have b: "(1.251620820768::real) \<le> ((201 / 200) ^ 5) ^ 9" .
  have "(6.02257521::real) \<le> 1.251620820768 ^ 8" by (simp add: power_divide)
  also have "\<dots> \<le> (((201 / 200) ^ 5) ^ 9) ^ 8" by (rule power_mono[OF b]) simp
  also have "\<dots> = (201 / 200 :: real) ^ 360" by (simp only: power_mult[symmetric]) simp
  finally show ?thesis .
qed

lemma compound_6_upper: "((201::real) / 200) ^ 360 \<le> 6.02257522"
proof -
  have a: "((201::real) / 200) ^ 5 \<le> 1.025251253129" by (simp add: power_divide)
  have "(((201::real) / 200) ^ 5) ^ 9 \<le> 1.025251253129 ^ 9" by (rule power_mono[OF a]) simp
  also have "\<dots> \<le> 1.25162082078" by (simp add: power_divide)
  finally have b: "(((201::real) / 200) ^ 5) ^ 9 \<le> 1.25162082078" .
  have "((201 / 200 :: real) ^ 360) = (((201 / 200) ^ 5) ^ 9) ^ 8"
    by (simp only: power_mult[symmetric]) simp
  also have "\<dots> \<le> 1.25162082078 ^ 8" by (rule power_mono[OF b]) simp
  also have "\<dots> \<le> 6.02257522" by (simp add: power_divide)
  finally show ?thesis .
qed

lemma annuity_6_enclosure:
  fixes x :: real
  assumes "6.02257521 \<le> x" "x \<le> 6.02257522"
  shows "21583.81 < 18000 * x / (x - 1)" "18000 * x / (x - 1) < 21583.83"
  using assms by (simp_all add: field_simps)

lemma pmtAnnual_6_30: "pmtAnnual 0.06 30 300000 = 18000 * (201 / 200) ^ 360 / ((201 / 200) ^ 360 - 1)"
  by (simp add: pmtAnnual_def)

lemma pmtAnnual_6_30_bounds:
  "21583.81 < pmtAnnual 0.06 30 300000" "pmtAnnual 0.06 30 300000 < 21583.83"
  unfolding pmtAnnual_6_30 using annuity_6_enclosure[OF compound_6_lower compound_6_upper]
  by blast+

lemma near_21583_82:
  fixes x :: real
  assumes "21583.81 < x" "x < 21583.83"
  shows "\<bar>x - 21583.82\<bar> < 0.01" "\<not> \<bar>x - 21719.69\<bar> < 135"
  using assms by (simp_all add: abs_if field_simps)

text \<open>
  Claim C3, as the code has it. For a positive rate \<^verbatim>\<open>pmtAnnual\<close> is 12 times the monthly
  annuity payment at the monthly rate \<open>rate / 12\<close> over \<open>years * 12\<close> periods; for a zero
  rate it is the principal divided by the number of periods, times 12, so
  \<^verbatim>\<open>pmtAnnual(0, 30, 300000)\<close> is 10000. The annuity value of
  \<^verbatim>\<open>pmtAnnual(0.06, 30, 300000)\<close> is 21583.82 to the cent.
\<close>

theorem pmtAnnual_annuity:
  "(0 < rate \<longrightarrow> pmtAnnual rate years P
      = 12 * (P * (rate / 12 * (1 + rate / 12) ^ (years * 12))
               / ((1 + rate / 12) ^ (years * 12) - 1)))
   \<and> pmtAnnual 0 years P = P / of_nat (years * 12) * 12
   \<and> pmtAnnual 0 30 300000 = 10000
   \<and> \<bar>pmtAnnual 0.06 30 300000 - 21583.82\<bar> < 0.01"
proof -
  have a: "0 < rate \<longrightarrow> pmtAnnual rate years P
      = 12 * (P * (rate / 12 * (1 + rate / 12) ^ (years * 12))
               / ((1 + rate / 12) ^ (years * 12) - 1))"
    by (simp add: pmtAnnual_def Let_def)
  have b: "pmtAnnual 0 years P = P / of_nat (years * 12) * 12"
    by (simp add: pmtAnnual_def)
  have c: "pmtAnnual 0 30 300000 = 10000"
    by (simp add: pmtAnnual_def)
  have d: "\<bar>pmtAnnual 0.06 30 300000 - 21583.82\<bar> < 0.01"
    using pmtAnnual_6_30_bounds by (rule near_21583_82)
  from a b c d show ?thesis by blast
qed

theorem pmtAnnual_annuity_witness:
  "(0::real) < 0.06 \<and> pmtAnnual 0.06 30 300000
      = 12 * (300000 * (0.06 / 12 * (1 + 0.06 / 12) ^ (30 * 12))
               / ((1 + 0.06 / 12) ^ (30 * 12) - 1))"
proof -
  have h: "(0::real) < 0.06" by simp
  with pmtAnnual_annuity[of "0.06" 30 300000] show ?thesis by blast
qed

text \<open>
  Claim C3 as stated fails: the value for 6 per cent, 30 years and 300000 is more than 135
  away from 21719.69.
\<close>

theorem pmtAnnual_value_counterexample: "\<not> \<bar>pmtAnnual 0.06 30 300000 - 21719.69\<bar> < 135"
  using pmtAnnual_6_30_bounds by (rule near_21583_82)

subsection \<open>Loan servicing and the loan type\<close>

lemma annuity_algebra:
  fixes x :: real
  assumes "1 < x"
  shows "P * (r / 12 * x) / (x - 1) * 12 = r * P * (x / (x - 1))"
  using assms by (simp add: field_simps)

text \<open>A principal-and-interest loan over 30 years costs more per year than its interest.\<close>

lemma pmtAnnual_above_interest:
  assumes "0 < rate" "0 < P"
  shows "rate * P < pmtAnnual rate 30 P"
proof -
  let ?x = "(1 + rate / 12) ^ 360"
  have x1: "1 < ?x" using assms(1) by (intro one_less_power) auto
  then have pos: "0 < ?x - 1" by simp
  have "?x - 1 < ?x" by simp
  then have "1 < ?x / (?x - 1)" using pos by (simp add: field_simps)
  then have "rate * P * 1 < rate * P * (?x / (?x - 1))"
    using assms by (intro mult_strict_left_mono) auto
  moreover have "pmtAnnual rate 30 P = rate * P * (?x / (?x - 1))"
    using assms(1) annuity_algebra[of ?x P rate] x1 by (simp add: pmtAnnual_def Let_def)
  ultimately show ?thesis by simp
qed

lemma pmtAnnual_scale: "pmtAnnual rate n P = P * pmtAnnual rate n 1"
  by (simp add: pmtAnnual_def Let_def)

lemma pmtAnnual_no_principal: "pmtAnnual rate n 0 = 0"
  by (simp add: pmtAnnual_def Let_def)

lemma default_servicing_differs:
  assumes "L \<noteq> 0"
  shows "pmtAnnual D_smsfPIRate 30 L \<noteq> L * D_normalIORate"
proof -
  have "D_smsfPIRate * 1 < pmtAnnual D_smsfPIRate 30 1"
    by (rule pmtAnnual_above_interest) (simp_all add: DEFAULTS_defs)
  then have "D_normalIORate < pmtAnnual D_smsfPIRate 30 1" by (simp add: DEFAULTS_defs)
  then have "pmtAnnual D_smsfPIRate 30 1 \<noteq> D_normalIORate" by simp
  then have "L * pmtAnnual D_smsfPIRate 30 1 \<noteq> L * D_normalIORate" using assms by simp
  then show ?thesis by (subst pmtAnnual_scale)
qed

text \<open>
  Claim C5, as the code has it. The total annual expense is the five recurring lines plus
  the management fee plus one loan-servicing cost: the principal-and-interest cost when
  the flag is SMSF, the interest-only cost when it is standard. With no tax bracket in
  the input the SMSF bracket is 0 and the standard one 0.42. When the loan principal is
  not zero and the input overrides neither rate, the two variants have different totals.
\<close>

theorem totalExpAnn_by_loan_type:
  "totalExpAnn input st True =
      councilAnn input + strataAnn input + buildingInsAnn input + landlordInsAnn input st
        + otherAnn input + mgmtAnn input st + piAnn input True
   \<and> totalExpAnn input st False =
      councilAnn input + strataAnn input + buildingInsAnn input + landlordInsAnn input st
        + otherAnn input + mgmtAnn input st + ioAnn input False
   \<and> (\<not> not_null (field input ''taxBracket'')
        \<longrightarrow> taxBracket input True = 0 \<and> taxBracket input False = 0.42)
   \<and> (loan input \<noteq> 0 \<and> \<not> not_null (field input ''interestOnlyRate'')
        \<and> \<not> not_null (field input ''principalInterestRate'')
        \<longrightarrow> totalExpAnn input st True \<noteq> totalExpAnn input st False)"
proof -
  have a: "totalExpAnn input st True =
      councilAnn input + strataAnn input + buildingInsAnn input + landlordInsAnn input st
        + otherAnn input + mgmtAnn input st + piAnn input True"
    and b: "totalExpAnn input st False =
      councilAnn input + strataAnn input + buildingInsAnn input + landlordInsAnn input st
        + otherAnn input + mgmtAnn input st + ioAnn input False"
    by (simp_all add: totalExpAnn_def)
  have c: "\<not> not_null (field input ''taxBracket'')
        \<longrightarrow> taxBracket input True = 0 \<and> taxBracket input False = 0.42"
    by (simp add: taxBracket_def pct_or_def DEFAULTS_defs)
  have d: "loan input \<noteq> 0 \<and> \<not> not_null (field input ''interestOnlyRate'')
        \<and> \<not> not_null (field input ''principalInterestRate'')
        \<longrightarrow> totalExpAnn input st True \<noteq> totalExpAnn input st False"
  proof (intro impI, elim conjE)
    assume L: "loan input \<noteq> 0" and io: "\<not> not_null (field input ''interestOnlyRate'')"
      and pi: "\<not> not_null (field input ''principalInterestRate'')"
    have "piAnn input True = pmtAnnual D_smsfPIRate 30 (loan input)"
      using pi by (simp add: piAnn_def piRate_def pct_or_def)
    moreover have "ioAnn input False = loan input * D_normalIORate"
      using io by (simp add: ioAnn_def ioRate_def pct_or_def)
    ultimately have "piAnn input True \<noteq> ioAnn input False"
      using default_servicing_differs[OF L] by simp
    then show "totalExpAnn input st True \<noteq> totalExpAnn input st False"
      unfolding a b by simp
  qed
  from a b c d show ?thesis by blast
qed

theorem totalExpAnn_by_loan_type_witness:
  "\<not> not_null (field scenario_input ''taxBracket'')
   \<and> \<not> not_null (field scenario_input ''interestOnlyRate'')
   \<and> \<not> not_null (field scenario_input ''principalInterestRate'')
   \<and> loan scenario_input = 480000
   \<and> taxBracket scenario_input True = 0
   \<and> taxBracket scenario_input False = 0.42
   \<and> totalExpAnn scenario_input ''NSW'' True \<noteq> totalExpAnn scenario_input ''NSW'' False"
proof -
  let ?i = scenario_input
  have h1: "\<not> not_null (field ?i ''taxBracket'')" by (simp add: scenario_input_def field_def)
  have h2: "\<not> not_null (field ?i ''interestOnlyRate'')"
    by (simp add: scenario_input_def field_def)
  have h3: "\<not> not_null (field ?i ''principalInterestRate'')"
    by (simp add: scenario_input_def field_def)
  have h4: "loan ?i = 480000"
    by (simp add: scenario_input_def loan_def price_def depositPct_def pct_or_def pct_def
        field_def)
  then have h5: "loan ?i \<noteq> 0" by simp
  from totalExpAnn_by_loan_type[of ?i "''NSW''"] h1 h2 h3 h4 h5 show ?thesis by blast
qed

text \<open>
  Claim C5 as stated fails: for a purchase paid in full by the deposit (deposit
  percentage 1, loan principal 0) both loan-servicing costs are 0 and the two variants
  have the same total expense.
\<close>

theorem totalExpAnn_same_counterexample:
  "totalExpAnn cash_purchase_input ''NSW'' True = totalExpAnn cash_purchase_input ''NSW'' False"
proof -
  have "loan cash_purchase_input = 0"
    by (simp add: cash_purchase_input_def loan_def depositPct_def pct_or_def pct_def field_def)
  then show ?thesis
    by (simp add: totalExpAnn_def piAnn_def ioAnn_def pmtAnnual_no_principal)
qed

subsection \<open>Percentages\<close>

text \<open>
  Claim C7. \<^verbatim>\<open>pct\<close> divides a parsed value above 1 by 100 and leaves any other value
  as it is, and each of the five percentage fields of the input (deposit percentage,
  management-fee percentage, interest-only rate, principal-and-interest rate, tax bracket),
  when it is given, is read through \<^verbatim>\<open>pct\<close>, for both loan types. An input of exactly 1
  stays 1.
\<close>

theorem pct_uniform:
  "pct v = (if num v > 1 then num v / 100 else num v)
   \<and> (not_null (field input ''depositPercent'')
        \<longrightarrow> depositPct input = pct (field input ''depositPercent''))
   \<and> (not_null (field input ''mgmtFeePercent'')
        \<longrightarrow> mgmtPct input st = pct (field input ''mgmtFeePercent''))
   \<and> (not_null (field input ''interestOnlyRate'')
        \<longrightarrow> ioRate input isSMSF = pct (field input ''interestOnlyRate''))
   \<and> (not_null (field input ''principalInterestRate'')
        \<longrightarrow> piRate input isSMSF = pct (field input ''principalInterestRate''))
   \<and> (not_null (field input ''taxBracket'')
        \<longrightarrow> taxBracket input isSMSF = pct (field input ''taxBracket''))
   \<and> pct (JNum 1) = 1"
  by (simp add: pct_def depositPct_def mgmtPct_def ioRate_def piRate_def taxBracket_def
      pct_or_def)

theorem pct_uniform_witness:
  "not_null (field percent_input ''depositPercent'')
   \<and> not_null (field percent_input ''mgmtFeePercent'')
   \<and> not_null (field percent_input ''interestOnlyRate'')
   \<and> not_null (field percent_input ''principalInterestRate'')
   \<and> not_null (field percent_input ''taxBracket'')
   \<and> depositPct percent_input = 0.2
   \<and> mgmtPct percent_input ''QLD'' = 0.07
   \<and> ioRate percent_input False = 1
   \<and> piRate percent_input False = 0.065
   \<and> taxBracket percent_input False = 0.37"
proof -
  let ?i = percent_input
  have f: "field ?i ''depositPercent'' = JNum 20" "field ?i ''mgmtFeePercent'' = JStr ''7%''"
    "field ?i ''interestOnlyRate'' = JNum 1"
    "field ?i ''principalInterestRate'' = JStr ''0.065''"
    "field ?i ''taxBracket'' = JStr ''37''"
    by (simp_all add: percent_input_def field_def)
  have n: "num (JStr ''7%'') = 7" "num (JStr ''0.065'') = 0.065" "num (JStr ''37'') = 37"
    by (simp_all add: parse_defs)
  have p: "pct (JNum 20) = 0.2" "pct (JStr ''7%'') = 0.07" "pct (JNum 1) = 1"
    "pct (JStr ''0.065'') = 0.065" "pct (JStr ''37'') = 0.37"
    unfolding pct_def n by simp_all
  have nn: "not_null (JNum 20)" "not_null (JStr ''7%'')" "not_null (JNum 1)"
    "not_null (JStr ''0.065'')" "not_null (JStr ''37'')"
    by simp_all
  from pct_uniform[of "JNum 20" ?i "''QLD''" False] show ?thesis
    unfolding f p using nn by blast
qed

subsection \<open>The returned object\<close>

lemma calculateCashflow_JStr:
  "calculateCashflow input (JStr s) isSMSF today =
     Inr (result_object input (trim (toUpperCase (or_NSW s))) isSMSF today)"
  by (simp add: calculateCashflow_def state_code_def or_NSW_def)


text \<open>A state that is a non-zero number makes the call throw.\<close>

lemma calculateCashflow_bad_state:
  "calculateCashflow input (JNum 5) isSMSF today = Inl TypeError"
  by (simp add: calculateCashflow_def state_code_def)






subsection \<open>Formatted amounts\<close>




















subsection \<open>Rental yield\<close>




subsection \<open>The territories\<close>

lemma fmt_1500: "fmt 1500 = ''1,500.00''"
  by (simp add: show_defs)

lemma toFixed_5_5: "toFixed (0.055 * 100) 2 = ''5.50''"
  by (simp add: show_defs)

lemma field_landlord_mgmt:
  "result_field (calculateCashflow input (JStr s) isSMSF today) ''landlordInsAnnually''
     = Some (JStr (fmt (landlordInsAnn input (trim (toUpperCase (or_NSW s))))))"
  "result_field (calculateCashflow input (JStr s) isSMSF today) ''mgmtFeePercent''
     = Some (JStr (toFixed (mgmtPct input (trim (toUpperCase (or_NSW s))) * 100) 2 @ ''%''))"
  by (simp_all add: calculateCashflow_JStr result_field_def result_object_def)

text \<open>
  Claim C10. For the codes ACT and NT, which have an entry in the fee table and a
  stamp-duty schedule of their own (at a price of 1000000 the duty is not the flat 4 per
  cent), the tables of landlord insurance and management fee have no entry: with no
  override in the input the landlord insurance is 1500 a year and the management fee
  5.5 per cent, and the result shows \<^verbatim>\<open>1,500.00\<close> and \<^verbatim>\<open>5.50%\<close>.
\<close>

theorem territories_use_fallback_defaults:
  assumes st: "trim (toUpperCase (or_NSW s)) = ''ACT'' \<or> trim (toUpperCase (or_NSW s)) = ''NT''"
    and li: "\<not> not_null (field input ''landlordInsAnnually'')"
    and mf: "\<not> not_null (field input ''mgmtFeePercent'')"
  shows "fees (trim (toUpperCase (or_NSW s))) \<noteq> None
    \<and> calcStampDuty 1000000 s \<noteq> 1000000 * 0.04
    \<and> LANDLORD_INS (trim (toUpperCase (or_NSW s))) = None
    \<and> MGMT_FEE_PCT (trim (toUpperCase (or_NSW s))) = None
    \<and> landlordInsAnn input (trim (toUpperCase (or_NSW s))) = 1500
    \<and> mgmtPct input (trim (toUpperCase (or_NSW s))) = 0.055
    \<and> result_field (calculateCashflow input (JStr s) isSMSF today) ''landlordInsAnnually''
        = Some (JStr ''1,500.00'')
    \<and> result_field (calculateCashflow input (JStr s) isSMSF today) ''mgmtFeePercent''
        = Some (JStr ''5.50%'')"
proof -
  let ?st = "trim (toUpperCase (or_NSW s))"
  have a: "fees ?st \<noteq> None" using st by (auto simp: fees_def)
  have b: "calcStampDuty 1000000 s \<noteq> 1000000 * 0.04"
    using st by (auto simp: calcStampDuty_def)
  have c: "LANDLORD_INS ?st = None" "MGMT_FEE_PCT ?st = None"
    using st by (auto simp: LANDLORD_INS_def MGMT_FEE_PCT_def)
  have d: "landlordInsAnn input ?st = 1500"
    using li c by (simp add: landlordInsAnn_def num_or_def lookup_or_def)
  have e: "mgmtPct input ?st = 0.055"
    using mf c by (simp add: mgmtPct_def pct_or_def lookup_or_def)
  have f: "result_field (calculateCashflow input (JStr s) isSMSF today) ''landlordInsAnnually''
        = Some (JStr ''1,500.00'')"
    unfolding field_landlord_mgmt d fmt_1500 by simp
  have g: "result_field (calculateCashflow input (JStr s) isSMSF today) ''mgmtFeePercent''
        = Some (JStr ''5.50%'')"
    unfolding field_landlord_mgmt e toFixed_5_5 by simp
  from a b c d e f g show ?thesis by blast
qed

theorem territories_use_fallback_defaults_witness:
  "trim (toUpperCase (or_NSW '' act'')) = ''ACT''
   \<and> \<not> not_null (field scenario_input ''landlordInsAnnually'')
   \<and> \<not> not_null (field scenario_input ''mgmtFeePercent'')
   \<and> result_field (calculateCashflow scenario_input (JStr '' act'') False ''01/01/2025'')
        ''landlordInsAnnually'' = Some (JStr ''1,500.00'')
   \<and> result_field (calculateCashflow scenario_input (JStr '' act'') False ''01/01/2025'')
        ''mgmtFeePercent'' = Some (JStr ''5.50%'')"
proof -
  have h1: "trim (toUpperCase (or_NSW '' act'')) = ''ACT''" by (simp add: string_defs)
  have h2: "\<not> not_null (field scenario_input ''landlordInsAnnually'')"
    by (simp add: scenario_input_def field_def)
  have h3: "\<not> not_null (field scenario_input ''mgmtFeePercent'')"
    by (simp add: scenario_input_def field_def)
  from territories_use_fallback_defaults[OF disjI1[OF h1] h2 h3, of False "''01/01/2025''"]
    h1 h2 h3
  show ?thesis by blast
qed

end
